theory Spec2Isabelle
  imports Main "HOL-Library.Word"
begin

unbundle bit_operations_syntax

section \<open>Buffer pool global types (include/buf0types.h)\<close>

subsection \<open>Integer types and debug assertions\<close>

text \<open>
  The header includes \<^verbatim>\<open>univ.i\<close>, which declares \<^verbatim>\<open>ulint\<close> (an unsigned integer of
  the machine word size) and \<^verbatim>\<open>ulonglong\<close>. The model takes the 64-bit build, where
  \<^verbatim>\<open>ulint\<close> has 64 bits. \<^verbatim>\<open>uint32_t\<close> and \<^verbatim>\<open>uint64_t\<close> are the fixed-width types.
\<close>

type_synonym uint32_t = "32 word"
type_synonym uint64_t = "64 word"
type_synonym ulint = "64 word"
type_synonym ulonglong = "64 word"

datatype error = ContractViolation

text \<open>
  Modelled from the spec: the macro \<^verbatim>\<open>ut_ad\<close> is defined in \<^verbatim>\<open>ut0dbg.h\<close>, outside this
  header. The spec calls a failed \<^verbatim>\<open>ut_ad\<close> a contract violation and says that the
  condition is checked only in debug builds. The build is the parameter \<open>univ_debug\<close>:
  where it holds, a false condition is a contract violation; where it does not, the macro
  expands to nothing and the statements after it run whatever the condition is.
\<close>

definition ut_ad :: "bool \<Rightarrow> bool \<Rightarrow> error + unit" where
  "ut_ad univ_debug c = (if univ_debug \<and> \<not> c then Inl ContractViolation else Inr ())"

subsection \<open>Page identifier\<close>

record page_id_t =
  m_id :: uint64_t

text \<open>\<^verbatim>\<open>uint32_t space() const { return static_cast<uint32_t>(m_id >> 32); }\<close>\<close>

definition space :: "page_id_t \<Rightarrow> uint32_t" where
  "space p = ucast (drop_bit 32 (m_id p))"

text \<open>\<^verbatim>\<open>uint32_t page_no() const { return static_cast<uint32_t>(m_id); }\<close>\<close>

definition page_no :: "page_id_t \<Rightarrow> uint32_t" where
  "page_no p = ucast (m_id p)"

text \<open>
  \<^verbatim>\<open>page_id_t(ulint space, uint32_t page_no) : m_id(uint64_t{space} << 32 | page_no)
  { ut_ad(space <= 0xFFFFFFFFU); }\<close>
\<close>

definition page_id_t_ctor :: "bool \<Rightarrow> ulint \<Rightarrow> uint32_t \<Rightarrow> error + page_id_t" where
  "page_id_t_ctor univ_debug spc pno =
     (case ut_ad univ_debug (spc \<le> 0xFFFFFFFF) of
        Inl e \<Rightarrow> Inl e
      | Inr _ \<Rightarrow> Inr \<lparr>m_id = push_bit 32 spc OR ucast pno\<rparr>)"

text \<open>\<^verbatim>\<open>page_id_t(uint64_t id) : m_id(id) {}\<close>\<close>

definition page_id_t_ctor_raw :: "uint64_t \<Rightarrow> page_id_t" where
  "page_id_t_ctor_raw i = \<lparr>m_id = i\<rparr>"

text \<open>The comparison operators compare \<^verbatim>\<open>m_id\<close>.\<close>

definition operator_eq :: "page_id_t \<Rightarrow> page_id_t \<Rightarrow> bool" where
  "operator_eq a b = (m_id a = m_id b)"

definition operator_ne :: "page_id_t \<Rightarrow> page_id_t \<Rightarrow> bool" where
  "operator_ne a b = (m_id a \<noteq> m_id b)"

definition operator_lt :: "page_id_t \<Rightarrow> page_id_t \<Rightarrow> bool" where
  "operator_lt a b = (m_id a < m_id b)"

definition operator_gt :: "page_id_t \<Rightarrow> page_id_t \<Rightarrow> bool" where
  "operator_gt a b = (m_id a > m_id b)"

definition operator_le :: "page_id_t \<Rightarrow> page_id_t \<Rightarrow> bool" where
  "operator_le a b = (m_id a \<le> m_id b)"

definition operator_ge :: "page_id_t \<Rightarrow> page_id_t \<Rightarrow> bool" where
  "operator_ge a b = (m_id a \<ge> m_id b)"

text \<open>\<^verbatim>\<open>page_id_t &operator--() { ut_ad(page_no()); m_id--; return *this; }\<close>\<close>

definition operator_dec :: "bool \<Rightarrow> page_id_t \<Rightarrow> error + page_id_t" where
  "operator_dec univ_debug p =
     (case ut_ad univ_debug (page_no p \<noteq> 0) of
        Inl e \<Rightarrow> Inl e
      | Inr _ \<Rightarrow> Inr (p\<lparr>m_id := m_id p - 1\<rparr>))"

text \<open>
  \<^verbatim>\<open>page_id_t &operator++() { ut_ad(page_no() < 0xFFFFFFFFU); m_id++; return *this; }\<close>
\<close>

definition operator_inc :: "bool \<Rightarrow> page_id_t \<Rightarrow> error + page_id_t" where
  "operator_inc univ_debug p =
     (case ut_ad univ_debug (page_no p < 0xFFFFFFFF) of
        Inl e \<Rightarrow> Inl e
      | Inr _ \<Rightarrow> Inr (p\<lparr>m_id := m_id p + 1\<rparr>))"

text \<open>
  \<^verbatim>\<open>page_id_t operator-(uint32_t i) const
  { ut_ad(page_no() >= i); return page_id_t(m_id - i); }\<close>
\<close>

definition operator_minus :: "bool \<Rightarrow> page_id_t \<Rightarrow> uint32_t \<Rightarrow> error + page_id_t" where
  "operator_minus univ_debug p i =
     (case ut_ad univ_debug (page_no p \<ge> i) of
        Inl e \<Rightarrow> Inl e
      | Inr _ \<Rightarrow> Inr (page_id_t_ctor_raw (m_id p - ucast i)))"

text \<open>
  \<^verbatim>\<open>page_id_t operator+(uint32_t i) const
  { ut_ad(page_no() < ~i); return page_id_t(m_id + i); }\<close>
\<close>

definition operator_plus :: "bool \<Rightarrow> page_id_t \<Rightarrow> uint32_t \<Rightarrow> error + page_id_t" where
  "operator_plus univ_debug p i =
     (case ut_ad univ_debug (page_no p < NOT i) of
        Inl e \<Rightarrow> Inl e
      | Inr _ \<Rightarrow> Inr (page_id_t_ctor_raw (m_id p + ucast i)))"

text \<open>
  \<^verbatim>\<open>ulint fold() const { return (space() << 20) + space() + page_no(); }\<close>
  All three operands are \<^verbatim>\<open>uint32_t\<close>, so the shift and both additions are done on
  32 bits; the result is widened to \<^verbatim>\<open>ulint\<close> by the return.
\<close>

definition fold_id :: "page_id_t \<Rightarrow> ulint" where
  "fold_id p = ucast (push_bit 20 (space p) + space p + page_no p)"

text \<open>
  \<^verbatim>\<open>void set_page_no(uint32_t page_no) { m_id= (m_id & ~uint64_t{0} << 32) | page_no; }\<close>
  The shift binds tighter than \<^verbatim>\<open>&\<close>: the mask is \<^verbatim>\<open>(~uint64_t{0}) << 32\<close>.
\<close>

definition set_page_no :: "page_id_t \<Rightarrow> uint32_t \<Rightarrow> page_id_t" where
  "set_page_no p pno = p\<lparr>m_id := (m_id p AND push_bit 32 (NOT 0)) OR ucast pno\<rparr>"

text \<open>\<^verbatim>\<open>ulonglong raw() { return m_id; }\<close>\<close>

definition raw :: "page_id_t \<Rightarrow> ulonglong" where
  "raw p = m_id p"

subsection \<open>I/O fix flags and latch types\<close>

datatype buf_io_fix = BUF_IO_NONE | BUF_IO_READ | BUF_IO_WRITE | BUF_IO_PIN

datatype rw_lock_type_t = RW_S_LATCH | RW_X_LATCH | RW_SX_LATCH | RW_NO_LATCH

text \<open>The enumerators are \<^verbatim>\<open>1 << 0\<close>, \<^verbatim>\<open>1 << 1\<close>, \<^verbatim>\<open>1 << 2\<close> and \<^verbatim>\<open>1 << 3\<close>.\<close>

fun rw_lock_type_val :: "rw_lock_type_t \<Rightarrow> int" where
  "rw_lock_type_val RW_S_LATCH = push_bit 0 1"
| "rw_lock_type_val RW_X_LATCH = push_bit 1 1"
| "rw_lock_type_val RW_SX_LATCH = push_bit 2 1"
| "rw_lock_type_val RW_NO_LATCH = push_bit 3 1"

subsection \<open>Checksum algorithms\<close>

datatype srv_checksum_algorithm_t =
    SRV_CHECKSUM_ALGORITHM_CRC32
  | SRV_CHECKSUM_ALGORITHM_STRICT_CRC32
  | SRV_CHECKSUM_ALGORITHM_FULL_CRC32
  | SRV_CHECKSUM_ALGORITHM_STRICT_FULL_CRC32

text \<open>The enumerators carry no explicit values: they are numbered from 0 in order.\<close>

fun srv_checksum_algorithm_val :: "srv_checksum_algorithm_t \<Rightarrow> ulint" where
  "srv_checksum_algorithm_val SRV_CHECKSUM_ALGORITHM_CRC32 = 0"
| "srv_checksum_algorithm_val SRV_CHECKSUM_ALGORITHM_STRICT_CRC32 = 1"
| "srv_checksum_algorithm_val SRV_CHECKSUM_ALGORITHM_FULL_CRC32 = 2"
| "srv_checksum_algorithm_val SRV_CHECKSUM_ALGORITHM_STRICT_FULL_CRC32 = 3"

text \<open>
  \<^verbatim>\<open>inline bool is_checksum_strict(srv_checksum_algorithm_t algo)
  { return algo == SRV_CHECKSUM_ALGORITHM_STRICT_CRC32; }\<close>
\<close>

definition is_checksum_strict :: "srv_checksum_algorithm_t \<Rightarrow> bool" where
  "is_checksum_strict algo = (algo = SRV_CHECKSUM_ALGORITHM_STRICT_CRC32)"

text \<open>
  \<^verbatim>\<open>inline bool is_checksum_strict(ulint algo)
  { return algo == SRV_CHECKSUM_ALGORITHM_STRICT_CRC32; }\<close>
  The enumerator is converted to \<^verbatim>\<open>ulint\<close> for the comparison.
\<close>

definition is_checksum_strict_ulint :: "ulint \<Rightarrow> bool" where
  "is_checksum_strict_ulint algo =
     (algo = srv_checksum_algorithm_val SRV_CHECKSUM_ALGORITHM_STRICT_CRC32)"

subsection \<open>Parameters of the binary buddy system\<close>

text \<open>
  The macros below expand \<^verbatim>\<open>UNIV_ZIP_SIZE_SHIFT_MIN\<close> and \<^verbatim>\<open>UNIV_PAGE_SIZE_SHIFT_MAX\<close>
  (integer constants of \<^verbatim>\<open>univ.i\<close>) and read the global \<^verbatim>\<open>srv_page_size_shift\<close>
  (an unsigned variable declared in \<^verbatim>\<open>srv0srv.h\<close>). None of the three is declared in
  this header, so each is a parameter: the two constants as natural numbers, the
  variable as a word of any width.

  A C++ shift whose count is not below the width of the promoted left operand is undefined;
  \<open>shl_u32\<close> returns \<open>None\<close> there.
\<close>

definition shl_u32 :: "uint32_t \<Rightarrow> nat \<Rightarrow> uint32_t option" where
  "shl_u32 x n = (if n < 32 then Some (push_bit n x) else None)"

text \<open>\<^verbatim>\<open>#define BUF_BUDDY_LOW_SHIFT UNIV_ZIP_SIZE_SHIFT_MIN\<close>\<close>

definition BUF_BUDDY_LOW_SHIFT :: "nat \<Rightarrow> nat" where
  "BUF_BUDDY_LOW_SHIFT univ_zip_size_shift_min = univ_zip_size_shift_min"

text \<open>\<^verbatim>\<open>#define BUF_BUDDY_LOW (1U << BUF_BUDDY_LOW_SHIFT)\<close>\<close>

definition BUF_BUDDY_LOW :: "nat \<Rightarrow> uint32_t option" where
  "BUF_BUDDY_LOW univ_zip_size_shift_min =
     shl_u32 1 (BUF_BUDDY_LOW_SHIFT univ_zip_size_shift_min)"

text \<open>
  \<^verbatim>\<open>#define BUF_BUDDY_SIZES (srv_page_size_shift - BUF_BUDDY_LOW_SHIFT)\<close>
  The subtraction is unsigned, in the type of \<^verbatim>\<open>srv_page_size_shift\<close>.
\<close>

definition BUF_BUDDY_SIZES :: "'a::len word \<Rightarrow> nat \<Rightarrow> 'a word" where
  "BUF_BUDDY_SIZES srv_page_size_shift univ_zip_size_shift_min =
     srv_page_size_shift - of_nat (BUF_BUDDY_LOW_SHIFT univ_zip_size_shift_min)"

text \<open>
  \<^verbatim>\<open>#define BUF_BUDDY_SIZES_MAX (UNIV_PAGE_SIZE_SHIFT_MAX - BUF_BUDDY_LOW_SHIFT)\<close>
  Both operands are \<^verbatim>\<open>int\<close> constants.
\<close>

definition BUF_BUDDY_SIZES_MAX :: "nat \<Rightarrow> nat \<Rightarrow> int" where
  "BUF_BUDDY_SIZES_MAX univ_page_size_shift_max univ_zip_size_shift_min =
     int univ_page_size_shift_max - int (BUF_BUDDY_LOW_SHIFT univ_zip_size_shift_min)"

text \<open>\<^verbatim>\<open>#define BUF_BUDDY_HIGH (BUF_BUDDY_LOW << BUF_BUDDY_SIZES)\<close>\<close>

definition BUF_BUDDY_HIGH :: "'a::len word \<Rightarrow> nat \<Rightarrow> uint32_t option" where
  "BUF_BUDDY_HIGH srv_page_size_shift univ_zip_size_shift_min =
     (case BUF_BUDDY_LOW univ_zip_size_shift_min of
        None \<Rightarrow> None
      | Some low \<Rightarrow>
          shl_u32 low (unat (BUF_BUDDY_SIZES srv_page_size_shift univ_zip_size_shift_min)))"

subsection \<open>Page hash latch\<close>

text \<open>
  \<^verbatim>\<open>page_hash_latch\<close> declares \<^verbatim>\<open>read_lock()\<close> and \<^verbatim>\<open>write_lock()\<close> without a body and
  inherits \<^verbatim>\<open>read_unlock()\<close> and \<^verbatim>\<open>write_unlock()\<close> from \<^verbatim>\<open>rw_lock\<close>; none of the four
  is defined in this header. The two templates are modelled over the four operations as
  parameters, each taking the latch (\<^verbatim>\<open>this\<close>) to whatever the operation does with it.

  \<^verbatim>\<open>template<bool exclusive> void acquire()
  { if (exclusive) write_lock(); else read_lock(); }\<close>
\<close>

definition acquire :: "('l \<Rightarrow> 'r) \<Rightarrow> ('l \<Rightarrow> 'r) \<Rightarrow> bool \<Rightarrow> 'l \<Rightarrow> 'r" where
  "acquire write_lock read_lock exclusive this =
     (if exclusive then write_lock this else read_lock this)"

text \<open>
  \<^verbatim>\<open>template<bool exclusive> void release()
  { if (exclusive) write_unlock(); else read_unlock(); }\<close>
\<close>

definition release :: "('l \<Rightarrow> 'r) \<Rightarrow> ('l \<Rightarrow> 'r) \<Rightarrow> bool \<Rightarrow> 'l \<Rightarrow> 'r" where
  "release write_unlock read_unlock exclusive this =
     (if exclusive then write_unlock this else read_unlock this)"

section \<open>Properties\<close>

subsection \<open>Shared facts about the packed identifier\<close>

lemma unat_space: "unat (space a) = unat (m_id a) div 2 ^ 32"
proof -
  have "unat (m_id a) < 2 ^ 64"
    using unsigned_less [of "m_id a", where ?'a = nat] by simp
  then have "unat (m_id a) div 2 ^ 32 < 2 ^ 32"
    by (simp add: less_mult_imp_div_less)
  moreover have "unat (space a) = take_bit 32 (drop_bit 32 (unat (m_id a)))"
    unfolding space_def by (simp only: unsigned_ucast_eq unat_drop_bit_eq) simp
  ultimately show ?thesis
    by (simp add: drop_bit_eq_div take_bit_eq_mod)
qed

lemma unat_page_no: "unat (page_no a) = unat (m_id a) mod 2 ^ 32"
  by (simp add: page_no_def unsigned_ucast_eq take_bit_eq_mod)

lemma m_id_decomp: "unat (m_id a) = unat (space a) * 2 ^ 32 + unat (page_no a)"
  by (simp add: unat_space unat_page_no)

lemma page_no_bound: "unat (page_no a) < 2 ^ 32"
  using unsigned_less [of "page_no a", where ?'a = nat] by simp

lemma lex_nat:
  fixes s1 s2 p1 p2 :: nat
  assumes "p1 < 2 ^ 32" "p2 < 2 ^ 32"
  shows "(s1 * 2 ^ 32 + p1 < s2 * 2 ^ 32 + p2) = (s1 < s2 \<or> (s1 = s2 \<and> p1 < p2))"
proof (cases s1 s2 rule: linorder_cases)
  case less
  then have "Suc s1 \<le> s2" by simp
  then have "Suc s1 * 2 ^ 32 \<le> s2 * (2 ^ 32 :: nat)" by (rule mult_le_mono1)
  with assms less show ?thesis by simp
next
  case equal
  then show ?thesis by simp
next
  case greater
  then have "Suc s2 \<le> s1" by simp
  then have "Suc s2 * 2 ^ 32 \<le> s1 * (2 ^ 32 :: nat)" by (rule mult_le_mono1)
  with assms greater show ?thesis by simp
qed

lemma operator_lt_lex:
  "operator_lt a b = (space a < space b \<or> (space a = space b \<and> page_no a < page_no b))"
  unfolding operator_lt_def word_less_nat_alt m_id_decomp
  using lex_nat [OF page_no_bound [of a] page_no_bound [of b], of "unat (space a)" "unat (space b)"]
  by (simp add: word_unat_eq_iff)

lemma space_ctor_bits:
  "(ucast (drop_bit 32 (push_bit 32 spc OR ucast pno :: 64 word)) :: 32 word) = ucast spc"
  for pno :: "32 word" and spc :: "64 word"
  by (rule bit_word_eqI) (auto simp add: bit_simps dest: bit_imp_le_length)

lemma page_no_ctor_bits:
  "(ucast (push_bit 32 spc OR ucast pno :: 64 word) :: 32 word) = pno"
  for pno :: "32 word" and spc :: "64 word"
  by (rule bit_word_eqI) (auto simp add: bit_simps)

lemma widen_narrow:
  assumes "spc \<le> 0xFFFFFFFF"
  shows "(ucast (ucast spc :: 32 word) :: 64 word) = spc"
proof -
  from assms have "unat spc < 2 ^ 32" by (simp add: word_le_nat_alt)
  then have "take_bit 32 (unat spc) = unat spc" by (simp add: take_bit_nat_eq_self)
  then show ?thesis
    by (simp add: word_unat_eq_iff unsigned_ucast_eq unsigned_take_bit_eq)
qed

lemma ctor_ok:
  "spc \<le> 0xFFFFFFFF \<Longrightarrow>
     page_id_t_ctor dbg spc pno = Inr \<lparr>m_id = push_bit 32 spc OR ucast pno\<rparr>"
  by (simp add: page_id_t_ctor_def ut_ad_def)

lemma ctor_fail:
  "\<not> spc \<le> 0xFFFFFFFF \<Longrightarrow> page_id_t_ctor True spc pno = Inl ContractViolation"
  by (simp add: page_id_t_ctor_def ut_ad_def)

subsection \<open>Construction and accessors\<close>

text \<open>
  Claim C1. For every tablespace id in the range 0 to 2^32 - 1 and every 32-bit page
  number, the constructor from (space, page_no) succeeds in every build, and reading the identifier
  back gives the same tablespace id (widened to \<^verbatim>\<open>ulint\<close>) and the same page number.
\<close>

theorem make_roundtrip:
  "spc \<le> 0xFFFFFFFF \<Longrightarrow>
     (\<exists>p. page_id_t_ctor dbg spc pno = Inr p \<and> ucast (space p) = spc \<and> page_no p = pno)"
proof -
  assume le: "spc \<le> 0xFFFFFFFF"
  let ?p = "\<lparr>m_id = push_bit 32 spc OR ucast pno\<rparr>"
  have "space ?p = ucast spc"
    unfolding space_def by (simp only: page_id_t.simps space_ctor_bits)
  then have "ucast (space ?p) = spc"
    using le by (simp only: widen_narrow)
  moreover have "page_no ?p = pno"
    unfolding page_no_def by (simp only: page_id_t.simps page_no_ctor_bits)
  ultimately show ?thesis
    using ctor_ok [OF le, where pno = pno and dbg = dbg] by blast
qed

theorem make_roundtrip_witness:
  "(7 :: ulint) \<le> 0xFFFFFFFF \<and>
     (\<exists>p. page_id_t_ctor False 7 42 = Inr p \<and> ucast (space p) = (7 :: ulint) \<and> page_no p = 42)"
  using make_roundtrip [where spc = 7 and pno = 42 and dbg = False] by simp

subsection \<open>The fold value\<close>

lemma unat_fold_id:
  "unat (fold_id p) = (unat (space p) * 2 ^ 20 + unat (space p) + unat (page_no p)) mod 2 ^ 32"
proof -
  let ?w = "push_bit 20 (space p) + space p + page_no p"
  have "unat ?w < 2 ^ 32"
    using unsigned_less [of ?w, where ?'a = nat] by simp
  then have "unat ?w < 2 ^ 64" by simp
  then have "take_bit 64 (unat ?w) = unat ?w"
    by (simp only: take_bit_nat_eq_self)
  then have "unat (fold_id p) = unat ?w"
    unfolding fold_id_def by (simp add: unsigned_ucast_eq)
  also have "\<dots> = (unat (space p) * 2 ^ 20 + unat (space p) + unat (page_no p)) mod 2 ^ 32"
    by (simp add: unat_word_ariths push_bit_eq_mult mod_simps)
  finally show ?thesis .
qed

text \<open>
  Claim C2, as amended. \<^verbatim>\<open>fold()\<close> is \<^verbatim>\<open>(space << 20) + space + page_no\<close> computed on
  32 bits and then widened: its value is that sum reduced modulo 2^32. Whenever the sum
  is below 2^32 the reduction does nothing and \<^verbatim>\<open>fold()\<close> is the sum itself; in
  particular the identifier made from (3, 100) folds to \<^verbatim>\<open>(3 << 20) + 3 + 100\<close>.
\<close>

theorem fold_formula:
  "unat (fold_id p) = (unat (space p) * 2 ^ 20 + unat (space p) + unat (page_no p)) mod 2 ^ 32
   \<and> (unat (space p) * 2 ^ 20 + unat (space p) + unat (page_no p) < 2 ^ 32 \<longrightarrow>
        unat (fold_id p) = unat (space p) * 2 ^ 20 + unat (space p) + unat (page_no p))
   \<and> page_id_t_ctor dbg 3 100 = Inr \<lparr>m_id = 0x300000064\<rparr>
   \<and> fold_id \<lparr>m_id = 0x300000064\<rparr> = push_bit 20 3 + 3 + 100"
proof -
  have a: "unat (fold_id p) = (unat (space p) * 2 ^ 20 + unat (space p) + unat (page_no p)) mod 2 ^ 32"
    by (rule unat_fold_id)
  have b: "page_id_t_ctor dbg 3 100 = Inr \<lparr>m_id = 0x300000064\<rparr>"
    by (simp add: page_id_t_ctor_def ut_ad_def)
  have c: "fold_id \<lparr>m_id = 0x300000064\<rparr> = push_bit 20 3 + 3 + 100"
    by (simp add: fold_id_def space_def page_no_def)
  from a b c show ?thesis by simp
qed

theorem fold_formula_witness:
  "unat (space \<lparr>m_id = 0x300000064\<rparr>) * 2 ^ 20 + unat (space \<lparr>m_id = 0x300000064\<rparr>)
      + unat (page_no \<lparr>m_id = 0x300000064\<rparr>) < 2 ^ 32
   \<and> unat (fold_id \<lparr>m_id = 0x300000064\<rparr>) = 3145831"
  using fold_formula [where p = "\<lparr>m_id = 0x300000064\<rparr>" and dbg = True]
  by (simp add: space_def page_no_def)

text \<open>
  The formula without the reduction fails for tablespace 4096 and page 0: the shift
  \<^verbatim>\<open>4096 << 20\<close> is 2^32, which is 0 on 32 bits, so the fold value is 4096 and not
  2^32 + 4096.
\<close>

theorem fold_formula_counterexample:
  "page_id_t_ctor True 4096 0 = Inr \<lparr>m_id = 0x100000000000\<rparr>
   \<and> page_id_t_ctor False 4096 0 = Inr \<lparr>m_id = 0x100000000000\<rparr>
   \<and> space \<lparr>m_id = 0x100000000000\<rparr> = 4096
   \<and> page_no \<lparr>m_id = 0x100000000000\<rparr> = 0
   \<and> fold_id \<lparr>m_id = 0x100000000000\<rparr> = 4096
   \<and> fold_id \<lparr>m_id = 0x100000000000\<rparr> \<noteq> push_bit 20 (4096 :: ulint) + 4096 + 0
   \<and> unat (fold_id \<lparr>m_id = 0x100000000000\<rparr>)
        \<noteq> unat (space \<lparr>m_id = 0x100000000000\<rparr>) * 2 ^ 20
          + unat (space \<lparr>m_id = 0x100000000000\<rparr>) + unat (page_no \<lparr>m_id = 0x100000000000\<rparr>)"
  by (simp add: page_id_t_ctor_def ut_ad_def fold_id_def space_def page_no_def)

subsection \<open>Ordering\<close>

lemma operator_eq_fields:
  "operator_eq a b = (space a = space b \<and> page_no a = page_no b)"
proof
  assume "operator_eq a b"
  then show "space a = space b \<and> page_no a = page_no b"
    by (simp add: operator_eq_def space_def page_no_def)
next
  assume "space a = space b \<and> page_no a = page_no b"
  then have "unat (m_id a) = unat (m_id b)"
    by (simp add: m_id_decomp)
  then show "operator_eq a b"
    by (simp add: operator_eq_def word_unat_eq_iff)
qed

lemma unat_narrow:
  fixes spc :: ulint
  assumes "spc \<le> 0xFFFFFFFF"
  shows "unat (ucast spc :: uint32_t) = unat spc"
proof -
  from assms have "unat spc < 2 ^ 32" by (simp add: word_le_nat_alt)
  then show ?thesis
    by (simp add: unsigned_ucast_eq take_bit_nat_eq_self)
qed

lemma ctor_lt:
  assumes "sA < sB" and "sB \<le> 0xFFFFFFFF"
  shows "\<exists>x y. page_id_t_ctor dbg sA pA = Inr x \<and> page_id_t_ctor dbg sB pB = Inr y \<and> operator_lt x y"
proof -
  from assms have leA: "sA \<le> 0xFFFFFFFF" by simp
  let ?x = "\<lparr>m_id = push_bit 32 sA OR ucast pA\<rparr>"
  let ?y = "\<lparr>m_id = push_bit 32 sB OR ucast pB\<rparr>"
  have sx: "space ?x = ucast sA" and sy: "space ?y = ucast sB"
    unfolding space_def by (simp_all only: page_id_t.simps space_ctor_bits)
  have "unat (ucast sA :: uint32_t) = unat sA" "unat (ucast sB :: uint32_t) = unat sB"
    using leA assms(2) by (simp_all only: unat_narrow)
  with assms(1) have "space ?x < space ?y"
    by (simp add: sx sy word_less_nat_alt)
  then have "operator_lt ?x ?y"
    by (simp only: operator_lt_lex simp_thms)
  with ctor_ok [OF leA, where pno = pA and dbg = dbg] ctor_ok [OF assms(2), where pno = pB and dbg = dbg]
  show ?thesis by blast
qed

lemma ctor_same_space:
  assumes "s \<le> 0xFFFFFFFF"
  shows "\<exists>x y. page_id_t_ctor dbg s pA = Inr x \<and> page_id_t_ctor dbg s pB = Inr y
           \<and> operator_lt x y = (pA < pB)"
proof -
  let ?x = "\<lparr>m_id = push_bit 32 s OR ucast pA\<rparr>"
  let ?y = "\<lparr>m_id = push_bit 32 s OR ucast pB\<rparr>"
  have "space ?x = space ?y"
    unfolding space_def by (simp only: page_id_t.simps space_ctor_bits)
  moreover have "page_no ?x = pA" "page_no ?y = pB"
    unfolding page_no_def by (simp_all only: page_id_t.simps page_no_ctor_bits)
  ultimately have "operator_lt ?x ?y = (pA < pB)"
    by (simp only: operator_lt_lex) simp
  with ctor_ok [OF assms, where pno = pA and dbg = dbg] ctor_ok [OF assms, where pno = pB and dbg = dbg]
  show ?thesis by blast
qed

text \<open>
  Claim C3. The comparison operators order identifiers lexicographically by
  (tablespace id, page number): \<^verbatim>\<open><\<close> is the strict lexicographic order, \<^verbatim>\<open>==\<close> is equality
  of both fields, the other operators are derived from these two, and the order is
  irreflexive, asymmetric, transitive and total. An identifier made for a smaller
  tablespace id is below one made for a larger tablespace id whatever the page numbers,
  and within one tablespace identifiers are ordered by page number.
\<close>

theorem page_id_order:
  "(operator_lt a b = (space a < space b \<or> (space a = space b \<and> page_no a < page_no b)))
   \<and> (operator_eq a b = (space a = space b \<and> page_no a = page_no b))
   \<and> (operator_eq a b = (a = b))
   \<and> (operator_ne a b = (\<not> operator_eq a b))
   \<and> (operator_le a b = (operator_lt a b \<or> operator_eq a b))
   \<and> (operator_gt a b = operator_lt b a)
   \<and> (operator_ge a b = operator_le b a)
   \<and> \<not> operator_lt a a
   \<and> (operator_lt a b \<or> operator_eq a b \<or> operator_lt b a)
   \<and> (operator_lt a b \<longrightarrow> \<not> operator_lt b a)
   \<and> (operator_lt a b \<longrightarrow> operator_lt b c \<longrightarrow> operator_lt a c)
   \<and> (sA < sB \<longrightarrow> sB \<le> 0xFFFFFFFF \<longrightarrow>
        (\<exists>x y. page_id_t_ctor dbg sA pA = Inr x \<and> page_id_t_ctor dbg sB pB = Inr y \<and> operator_lt x y))
   \<and> (sB \<le> 0xFFFFFFFF \<longrightarrow>
        (\<exists>x y. page_id_t_ctor dbg sB pA = Inr x \<and> page_id_t_ctor dbg sB pB = Inr y
           \<and> operator_lt x y = (pA < pB)))"
proof -
  have 1: "operator_lt a b = (space a < space b \<or> (space a = space b \<and> page_no a < page_no b))"
    by (rule operator_lt_lex)
  have 2: "operator_eq a b = (space a = space b \<and> page_no a = page_no b)"
    by (rule operator_eq_fields)
  have 3: "operator_eq a b = (a = b)"
    by (cases a, cases b) (simp add: operator_eq_def)
  have 4: "operator_ne a b = (\<not> operator_eq a b)"
    by (simp add: operator_ne_def operator_eq_def)
  have 5: "operator_le a b = (operator_lt a b \<or> operator_eq a b)"
    by (auto simp add: operator_le_def operator_lt_def operator_eq_def)
  have 6: "operator_gt a b = operator_lt b a"
    by (simp add: operator_gt_def operator_lt_def)
  have 7: "operator_ge a b = operator_le b a"
    by (simp add: operator_ge_def operator_le_def)
  have 8: "\<not> operator_lt a a"
    by (simp add: operator_lt_def)
  have 9: "operator_lt a b \<or> operator_eq a b \<or> operator_lt b a"
    by (auto simp add: operator_lt_def operator_eq_def)
  have 10: "operator_lt a b \<longrightarrow> \<not> operator_lt b a"
    by (auto simp add: operator_lt_def)
  have 11: "operator_lt a b \<longrightarrow> operator_lt b c \<longrightarrow> operator_lt a c"
    by (auto simp add: operator_lt_def)
  have 12: "sA < sB \<longrightarrow> sB \<le> 0xFFFFFFFF \<longrightarrow>
        (\<exists>x y. page_id_t_ctor dbg sA pA = Inr x \<and> page_id_t_ctor dbg sB pB = Inr y \<and> operator_lt x y)"
    using ctor_lt by blast
  have 13: "sB \<le> 0xFFFFFFFF \<longrightarrow>
        (\<exists>x y. page_id_t_ctor dbg sB pA = Inr x \<and> page_id_t_ctor dbg sB pB = Inr y
           \<and> operator_lt x y = (pA < pB))"
    using ctor_same_space by blast
  from 1 2 3 4 5 6 7 8 9 10 11 12 13 show ?thesis by (intro conjI)
qed

theorem page_id_order_witness:
  "operator_lt \<lparr>m_id = 0x100000005\<rparr> \<lparr>m_id = 0x200000000\<rparr>
   \<and> operator_lt \<lparr>m_id = 0x200000000\<rparr> \<lparr>m_id = 0x200000007\<rparr>
   \<and> (1 :: ulint) < 2 \<and> (2 :: ulint) \<le> 0xFFFFFFFF
   \<and> operator_lt \<lparr>m_id = 0x100000005\<rparr> \<lparr>m_id = 0x200000007\<rparr>
   \<and> \<not> operator_lt \<lparr>m_id = 0x200000000\<rparr> \<lparr>m_id = 0x100000005\<rparr>
   \<and> (\<exists>x y. page_id_t_ctor True 1 9 = Inr x \<and> page_id_t_ctor True 2 3 = Inr y
          \<and> operator_lt x y)
   \<and> (\<exists>x y. page_id_t_ctor True 2 9 = Inr x \<and> page_id_t_ctor True 2 3 = Inr y
          \<and> operator_lt x y = ((9 :: uint32_t) < 3))"
  using page_id_order [where a = "\<lparr>m_id = 0x100000005\<rparr>" and b = "\<lparr>m_id = 0x200000000\<rparr>"
      and c = "\<lparr>m_id = 0x200000007\<rparr>" and sA = 1 and sB = 2 and pA = 9 and pB = 3
      and dbg = True]
  by (simp add: operator_lt_def)

subsection \<open>Increment and decrement\<close>

lemma inc_ok:
  "page_no p < 0xFFFFFFFF \<Longrightarrow> operator_inc dbg p = Inr (p\<lparr>m_id := m_id p + 1\<rparr>)"
  by (simp add: operator_inc_def ut_ad_def)

lemma inc_fail:
  "\<not> page_no p < 0xFFFFFFFF \<Longrightarrow> operator_inc True p = Inl ContractViolation"
  by (simp add: operator_inc_def ut_ad_def)

lemma inc_unchecked:
  "operator_inc False p = Inr (p\<lparr>m_id := m_id p + 1\<rparr>)"
  by (simp add: operator_inc_def ut_ad_def)

lemma dec_ok:
  "page_no p \<noteq> 0 \<Longrightarrow> operator_dec dbg p = Inr (p\<lparr>m_id := m_id p - 1\<rparr>)"
  by (simp add: operator_dec_def ut_ad_def)

lemma dec_fail:
  "page_no p = 0 \<Longrightarrow> operator_dec True p = Inl ContractViolation"
  by (simp add: operator_dec_def ut_ad_def)

lemma dec_unchecked:
  "operator_dec False p = Inr (p\<lparr>m_id := m_id p - 1\<rparr>)"
  by (simp add: operator_dec_def ut_ad_def)

lemma inc_fields:
  assumes "page_no p < 0xFFFFFFFF"
  shows "space (p\<lparr>m_id := m_id p + 1\<rparr>) = space p"
    and "unat (page_no (p\<lparr>m_id := m_id p + 1\<rparr>)) = unat (page_no p) + 1"
proof -
  let ?q = "p\<lparr>m_id := m_id p + 1\<rparr>"
  from assms have lt: "unat (page_no p) < 2 ^ 32 - 1"
    by (simp add: word_less_nat_alt)
  have d: "unat (m_id p) = unat (space p) * 2 ^ 32 + unat (page_no p)"
    by (rule m_id_decomp)
  have "unat (space p) < 2 ^ 32"
    using unsigned_less [of "space p", where ?'a = nat] by simp
  with lt d have "unat (m_id p) + 1 < 2 ^ 64" by simp
  then have "unat (m_id p + 1) = unat (m_id p) + 1"
    by (simp add: unat_word_ariths)
  then have q: "unat (m_id ?q) = unat (space p) * 2 ^ 32 + (unat (page_no p) + 1)"
    using d by simp
  from lt have small: "unat (page_no p) + 1 < 2 ^ 32" by simp
  have "unat (space ?q) = unat (space p)"
    unfolding unat_space [of ?q] q using small by simp
  then show "space ?q = space p" by (simp add: word_unat_eq_iff)
  show "unat (page_no ?q) = unat (page_no p) + 1"
    unfolding unat_page_no [of ?q] q using small by simp
qed

lemma dec_fields:
  assumes "page_no p \<noteq> 0"
  shows "space (p\<lparr>m_id := m_id p - 1\<rparr>) = space p"
    and "unat (page_no (p\<lparr>m_id := m_id p - 1\<rparr>)) + 1 = unat (page_no p)"
proof -
  let ?q = "p\<lparr>m_id := m_id p - 1\<rparr>"
  from assms have pos: "0 < unat (page_no p)"
    by (simp add: unat_gt_0)
  have d: "unat (m_id p) = unat (space p) * 2 ^ 32 + unat (page_no p)"
    by (rule m_id_decomp)
  with pos have "1 \<le> unat (m_id p)" by simp
  then have "(1 :: uint64_t) \<le> m_id p" by (simp add: word_le_nat_alt)
  then have "unat (m_id p - 1) = unat (m_id p) - unat (1 :: uint64_t)"
    by (rule unat_sub)
  then have q: "unat (m_id ?q) = unat (space p) * 2 ^ 32 + (unat (page_no p) - 1)"
    using d pos by simp
  have small: "unat (page_no p) - 1 < 2 ^ 32"
    using page_no_bound [of p] by simp
  have "unat (space ?q) = unat (space p)"
    unfolding unat_space [of ?q] q using small by simp
  then show "space ?q = space p" by (simp add: word_unat_eq_iff)
  have "unat (page_no ?q) = unat (page_no p) - 1"
    unfolding unat_page_no [of ?q] q using small by simp
  with pos show "unat (page_no ?q) + 1 = unat (page_no p)" by simp
qed

text \<open>
  Claim C4, as amended. In every build, when the page number is below 0xFFFFFFFF,
  \<^verbatim>\<open>++\<close> succeeds, \<^verbatim>\<open>--\<close> applied to its result succeeds and gives back the original
  identifier, and the tablespace id is the same at every step. In a debug build
  (\<^verbatim>\<open>ut_ad\<close> compiled in), \<^verbatim>\<open>++\<close> at page number 0xFFFFFFFF and \<^verbatim>\<open>--\<close> at page number 0
  fail with a contract violation, and whenever either operator succeeds the page number
  has moved by exactly one as a natural number and the tablespace id is unchanged, so
  the page number never wraps around. In a build without the assertion neither operator
  fails: \<^verbatim>\<open>++\<close> adds one to the packed 64-bit value and \<^verbatim>\<open>--\<close> subtracts one from it,
  whatever the page number.
\<close>

theorem next_prev:
  "(page_no p < 0xFFFFFFFF \<longrightarrow>
      (\<exists>q r. operator_inc dbg p = Inr q \<and> operator_dec dbg q = Inr r
         \<and> operator_eq r p \<and> r = p \<and> space q = space p \<and> space r = space p
         \<and> unat (page_no q) = unat (page_no p) + 1))
   \<and> (page_no p = 0xFFFFFFFF \<longrightarrow> operator_inc True p = Inl ContractViolation)
   \<and> (page_no p = 0 \<longrightarrow> operator_dec True p = Inl ContractViolation)
   \<and> (\<forall>q. operator_inc True p = Inr q \<longrightarrow>
         space q = space p \<and> unat (page_no q) = unat (page_no p) + 1)
   \<and> (\<forall>q. operator_dec True p = Inr q \<longrightarrow>
         space q = space p \<and> unat (page_no q) + 1 = unat (page_no p))
   \<and> operator_inc False p = Inr (p\<lparr>m_id := m_id p + 1\<rparr>)
   \<and> operator_dec False p = Inr (p\<lparr>m_id := m_id p - 1\<rparr>)"
proof -
  have a: "\<exists>q r. operator_inc dbg p = Inr q \<and> operator_dec dbg q = Inr r
         \<and> operator_eq r p \<and> r = p \<and> space q = space p \<and> space r = space p
         \<and> unat (page_no q) = unat (page_no p) + 1" if lt: "page_no p < 0xFFFFFFFF"
  proof -
    let ?q = "p\<lparr>m_id := m_id p + 1\<rparr>"
    have u: "unat (page_no ?q) = unat (page_no p) + 1" and s: "space ?q = space p"
      using inc_fields [OF lt] by simp_all
    from u have "page_no ?q \<noteq> 0" by (auto simp add: word_unat_eq_iff)
    then have "operator_dec dbg ?q = Inr (?q\<lparr>m_id := m_id ?q - 1\<rparr>)" by (rule dec_ok)
    then have "operator_dec dbg ?q = Inr p" by simp
    with inc_ok [OF lt, where dbg = dbg] u s show ?thesis by (simp add: operator_eq_def)
  qed
  have b: "operator_inc True p = Inl ContractViolation" if "page_no p = 0xFFFFFFFF"
    using that by (simp add: inc_fail)
  have c: "operator_dec True p = Inl ContractViolation" if "page_no p = 0"
    using that by (rule dec_fail)
  have d: "space q = space p \<and> unat (page_no q) = unat (page_no p) + 1"
    if "operator_inc True p = Inr q" for q
  proof (cases "page_no p < 0xFFFFFFFF")
    case True
    with that inc_ok [OF True, where dbg = True] inc_fields [OF True] show ?thesis by auto
  next
    case False
    with that inc_fail [OF False] show ?thesis by simp
  qed
  have e: "space q = space p \<and> unat (page_no q) + 1 = unat (page_no p)"
    if "operator_dec True p = Inr q" for q
  proof (cases "page_no p = 0")
    case True
    with that dec_fail [OF True] show ?thesis by simp
  next
    case False
    with that dec_ok [OF False, where dbg = True] dec_fields [OF False] show ?thesis by auto
  qed
  from a b c d e inc_unchecked [of p] dec_unchecked [of p] show ?thesis by blast
qed

theorem next_prev_witness:
  "page_no \<lparr>m_id = 0x500000000\<rparr> < 0xFFFFFFFF
   \<and> (\<exists>q r. operator_inc False \<lparr>m_id = 0x500000000\<rparr> = Inr q \<and> operator_dec False q = Inr r
         \<and> operator_eq r \<lparr>m_id = 0x500000000\<rparr> \<and> r = \<lparr>m_id = 0x500000000\<rparr>
         \<and> space q = space \<lparr>m_id = 0x500000000\<rparr> \<and> space r = space \<lparr>m_id = 0x500000000\<rparr>
         \<and> unat (page_no q) = unat (page_no \<lparr>m_id = 0x500000000\<rparr>) + 1)
   \<and> operator_inc False \<lparr>m_id = 0x500000000\<rparr> = Inr \<lparr>m_id = 0x500000001\<rparr>
   \<and> operator_dec False \<lparr>m_id = 0x500000001\<rparr> = Inr \<lparr>m_id = 0x500000000\<rparr>
   \<and> operator_inc True \<lparr>m_id = 0x500000000\<rparr> = Inr \<lparr>m_id = 0x500000001\<rparr>
   \<and> operator_dec True \<lparr>m_id = 0x500000001\<rparr> = Inr \<lparr>m_id = 0x500000000\<rparr>
   \<and> space \<lparr>m_id = 0x500000001\<rparr> = space \<lparr>m_id = 0x500000000\<rparr>
   \<and> page_no \<lparr>m_id = 0x500000000\<rparr> = 0
   \<and> operator_dec True \<lparr>m_id = 0x500000000\<rparr> = Inl ContractViolation
   \<and> page_no \<lparr>m_id = 0x5FFFFFFFF\<rparr> = 0xFFFFFFFF
   \<and> operator_inc True \<lparr>m_id = 0x5FFFFFFFF\<rparr> = Inl ContractViolation
   \<and> operator_dec True \<lparr>m_id = 0x5FFFFFFFF\<rparr> = Inr \<lparr>m_id = 0x5FFFFFFFE\<rparr>
   \<and> space \<lparr>m_id = 0x5FFFFFFFE\<rparr> = space \<lparr>m_id = 0x5FFFFFFFF\<rparr>"
proof -
  have h1: "page_no \<lparr>m_id = 0x500000000\<rparr> < 0xFFFFFFFF"
    and h2: "page_no \<lparr>m_id = 0x500000000\<rparr> = 0"
    and h3: "page_no \<lparr>m_id = 0x5FFFFFFFF\<rparr> = 0xFFFFFFFF"
    by (simp_all add: page_no_def)
  have i: "operator_inc dbg \<lparr>m_id = 0x500000000\<rparr> = Inr \<lparr>m_id = 0x500000001\<rparr>"
    and d: "operator_dec dbg \<lparr>m_id = 0x500000001\<rparr> = Inr \<lparr>m_id = 0x500000000\<rparr>"
    and d2: "operator_dec dbg \<lparr>m_id = 0x5FFFFFFFF\<rparr> = Inr \<lparr>m_id = 0x5FFFFFFFE\<rparr>" for dbg
    by (simp_all add: operator_inc_def operator_dec_def ut_ad_def page_no_def)
  have s1: "space \<lparr>m_id = 0x500000001\<rparr> = space \<lparr>m_id = 0x500000000\<rparr>"
    and s2: "space \<lparr>m_id = 0x5FFFFFFFE\<rparr> = space \<lparr>m_id = 0x5FFFFFFFF\<rparr>"
    by (simp_all add: space_def)
  note t0 = next_prev [where p = "\<lparr>m_id = 0x500000000\<rparr>" and dbg = False]
  note t1 = next_prev [where p = "\<lparr>m_id = 0x5FFFFFFFF\<rparr>" and dbg = True]
  have f0: "(\<exists>q r. operator_inc False \<lparr>m_id = 0x500000000\<rparr> = Inr q \<and> operator_dec False q = Inr r
      \<and> operator_eq r \<lparr>m_id = 0x500000000\<rparr> \<and> r = \<lparr>m_id = 0x500000000\<rparr>
      \<and> space q = space \<lparr>m_id = 0x500000000\<rparr> \<and> space r = space \<lparr>m_id = 0x500000000\<rparr>
      \<and> unat (page_no q) = unat (page_no \<lparr>m_id = 0x500000000\<rparr>) + 1)"
    using t0 [THEN conjunct1] h1 by (rule mp)
  have f1: "operator_dec True \<lparr>m_id = 0x500000000\<rparr> = Inl ContractViolation"
    using t0 [THEN conjunct2, THEN conjunct2, THEN conjunct1] h2 by (rule mp)
  have f2: "operator_inc True \<lparr>m_id = 0x5FFFFFFFF\<rparr> = Inl ContractViolation"
    using t1 [THEN conjunct2, THEN conjunct1] h3 by (rule mp)
  from h1 f0 i [of False] d [of False] i [of True] d [of True] s1 h2 f1 h3 f2 d2 [of True] s2
  show ?thesis by (intro conjI)
qed

text \<open>
  Without the build restriction the claim fails. In a build without the assertion,
  \<^verbatim>\<open>++\<close> on tablespace 5, page number 0xFFFFFFFF does not fail: it returns tablespace 6,
  page number 0. Likewise \<^verbatim>\<open>--\<close> on tablespace 5, page number 0 returns tablespace 4,
  page number 0xFFFFFFFF.
\<close>

theorem next_prev_counterexample:
  "page_no \<lparr>m_id = 0x5FFFFFFFF\<rparr> = 0xFFFFFFFF
   \<and> space \<lparr>m_id = 0x5FFFFFFFF\<rparr> = 5
   \<and> operator_inc False \<lparr>m_id = 0x5FFFFFFFF\<rparr> = Inr \<lparr>m_id = 0x600000000\<rparr>
   \<and> operator_inc False \<lparr>m_id = 0x5FFFFFFFF\<rparr> \<noteq> Inl ContractViolation
   \<and> space \<lparr>m_id = 0x600000000\<rparr> = 6
   \<and> page_no \<lparr>m_id = 0x600000000\<rparr> = 0
   \<and> page_no \<lparr>m_id = 0x500000000\<rparr> = 0
   \<and> space \<lparr>m_id = 0x500000000\<rparr> = 5
   \<and> operator_dec False \<lparr>m_id = 0x500000000\<rparr> = Inr \<lparr>m_id = 0x4FFFFFFFF\<rparr>
   \<and> operator_dec False \<lparr>m_id = 0x500000000\<rparr> \<noteq> Inl ContractViolation
   \<and> space \<lparr>m_id = 0x4FFFFFFFF\<rparr> = 4
   \<and> page_no \<lparr>m_id = 0x4FFFFFFFF\<rparr> = 0xFFFFFFFF"
  by (simp add: operator_inc_def operator_dec_def ut_ad_def page_no_def space_def)

subsection \<open>Checksum strictness\<close>

text \<open>
  Claim C5. \<^verbatim>\<open>is_checksum_strict\<close> is true for \<^verbatim>\<open>STRICT_CRC32\<close> and for nothing else: it
  is false for \<^verbatim>\<open>CRC32\<close>, \<^verbatim>\<open>FULL_CRC32\<close> and \<^verbatim>\<open>STRICT_FULL_CRC32\<close>. The overload
  on \<^verbatim>\<open>ulint\<close> is true exactly at the value 1 and agrees with the overload on the
  enumeration at the value of every enumerator.
\<close>

theorem checksum_strict:
  "is_checksum_strict algo = (algo = SRV_CHECKSUM_ALGORITHM_STRICT_CRC32)
   \<and> is_checksum_strict SRV_CHECKSUM_ALGORITHM_STRICT_CRC32
   \<and> \<not> is_checksum_strict SRV_CHECKSUM_ALGORITHM_CRC32
   \<and> \<not> is_checksum_strict SRV_CHECKSUM_ALGORITHM_FULL_CRC32
   \<and> \<not> is_checksum_strict SRV_CHECKSUM_ALGORITHM_STRICT_FULL_CRC32
   \<and> is_checksum_strict_ulint (srv_checksum_algorithm_val algo)
       = (algo = SRV_CHECKSUM_ALGORITHM_STRICT_CRC32)
   \<and> is_checksum_strict_ulint n = (n = 1)
   \<and> is_checksum_strict_ulint (srv_checksum_algorithm_val algo) = is_checksum_strict algo"
  by (cases algo) (simp_all add: is_checksum_strict_def is_checksum_strict_ulint_def)

subsection \<open>The raw value\<close>

text \<open>
  Claim C8. Building an identifier from the raw 64-bit value of an identifier gives that
  identifier back: the two compare equal and have the same tablespace id and page number.
\<close>

theorem raw_roundtrip:
  "page_id_t_ctor_raw (raw p) = p
   \<and> operator_eq (page_id_t_ctor_raw (raw p)) p
   \<and> space (page_id_t_ctor_raw (raw p)) = space p
   \<and> page_no (page_id_t_ctor_raw (raw p)) = page_no p"
proof -
  have "page_id_t_ctor_raw (raw p) = p"
    by (cases p) (simp add: page_id_t_ctor_raw_def raw_def)
  then show ?thesis
    by (simp add: operator_eq_def)
qed

subsection \<open>Resetting the page number\<close>

lemma set_page_no_bits_low:
  "(ucast ((m AND push_bit 32 (NOT 0)) OR ucast pno :: uint64_t) :: uint32_t) = pno"
  for pno :: uint32_t and m :: uint64_t
  by (rule bit_word_eqI) (auto simp add: bit_simps)

lemma set_page_no_bits_high:
  "(ucast (drop_bit 32 ((m AND push_bit 32 (NOT 0)) OR ucast pno :: uint64_t)) :: uint32_t)
     = ucast (drop_bit 32 m)"
  for pno :: uint32_t and m :: uint64_t
  by (rule bit_word_eqI) (auto simp add: bit_simps dest: bit_imp_le_length)

text \<open>
  Claim C10. \<^verbatim>\<open>set_page_no\<close> sets the page number to exactly the given 32-bit value and
  leaves the tablespace id unchanged.
\<close>

theorem set_page_no_frame:
  "page_no (set_page_no p pno) = pno \<and> space (set_page_no p pno) = space p"
proof -
  have m: "m_id (set_page_no p pno) = (m_id p AND push_bit 32 (NOT 0)) OR ucast pno"
    by (simp add: set_page_no_def)
  have "page_no (set_page_no p pno) = pno"
    unfolding page_no_def m by (rule set_page_no_bits_low)
  moreover have "space (set_page_no p pno) = space p"
    unfolding space_def m by (rule set_page_no_bits_high)
  ultimately show ?thesis by simp
qed

subsection \<open>Latch dispatch\<close>

text \<open>
  Claim C9. Whatever the four single-mode operations do, \<^verbatim>\<open>acquire<true>\<close> is
  \<^verbatim>\<open>write_lock\<close>, \<^verbatim>\<open>acquire<false>\<close> is \<^verbatim>\<open>read_lock\<close>, \<^verbatim>\<open>release<true>\<close> is
  \<^verbatim>\<open>write_unlock\<close> and \<^verbatim>\<open>release<false>\<close> is \<^verbatim>\<open>read_unlock\<close>, on every latch.
\<close>

theorem acquire_release_dispatch:
  "acquire write_lock read_lock True this = write_lock this
   \<and> acquire write_lock read_lock False this = read_lock this
   \<and> release write_unlock read_unlock True this = write_unlock this
   \<and> release write_unlock read_unlock False this = read_unlock this"
  by (simp add: acquire_def release_def)

subsection \<open>Buddy size classes\<close>

lemma unat_sizes:
  fixes s :: "'a::len word"
  assumes "z \<le> unat s"
  shows "unat (BUF_BUDDY_SIZES s z) = unat s - z"
proof -
  have "unat s < 2 ^ LENGTH('a)"
    using unsigned_less [of s, where ?'a = nat] by simp
  with assms have zlt: "z < 2 ^ LENGTH('a)" by (rule le_less_trans)
  then have uz: "unat (of_nat z :: 'a word) = z"
    using assms by (simp only: le_unat_uoi)
  with assms have "(of_nat z :: 'a word) \<le> s"
    by (simp add: word_le_nat_alt)
  then have "unat (s - of_nat z) = unat s - unat (of_nat z :: 'a word)"
    by (rule unat_sub)
  with uz show ?thesis
    by (simp add: BUF_BUDDY_SIZES_def BUF_BUDDY_LOW_SHIFT_def)
qed

lemma unat_of_nat_u32: "n < 2 ^ 32 \<Longrightarrow> unat (of_nat n :: uint32_t) = n"
  by (simp add: unat_of_nat)

text \<open>
  Claim C6. When the page-size shift is at least the low shift and below 32 (which covers
  every supported page size), \<^verbatim>\<open>BUF_BUDDY_SIZES\<close> is the page-size shift minus
  \<^verbatim>\<open>BUF_BUDDY_LOW_SHIFT\<close>, \<^verbatim>\<open>BUF_BUDDY_HIGH\<close> is \<^verbatim>\<open>BUF_BUDDY_LOW\<close> shifted left by
  \<^verbatim>\<open>BUF_BUDDY_SIZES\<close>, and its value is exactly 2 to the power of the page-size shift;
  for shift 14 and low shift 9 this gives 5 size classes and 16384.
\<close>

theorem buddy_high:
  fixes s :: "'a::len word"
  assumes "z \<le> unat s" and "unat s < 32"
  shows "unat (BUF_BUDDY_SIZES s z) = unat s - BUF_BUDDY_LOW_SHIFT z
       \<and> (\<exists>low high. BUF_BUDDY_LOW z = Some low \<and> BUF_BUDDY_HIGH s z = Some high
            \<and> shl_u32 low (unat (BUF_BUDDY_SIZES s z)) = Some high
            \<and> unat high = 2 ^ unat s)"
proof -
  from assms have z32: "z < 32" by simp
  have sz: "unat (BUF_BUDDY_SIZES s z) = unat s - z"
    using assms(1) by (rule unat_sizes)
  have low: "BUF_BUDDY_LOW z = Some (push_bit z 1)"
    using z32 by (simp add: BUF_BUDDY_LOW_def BUF_BUDDY_LOW_SHIFT_def shl_u32_def)
  have "push_bit (unat s - z) (push_bit z (1 :: uint32_t)) = push_bit (unat s) 1"
    using assms(1) by (simp only: push_bit_push_bit le_add_diff_inverse2)
  then have shl: "shl_u32 (push_bit z 1) (unat (BUF_BUDDY_SIZES s z)) = Some (push_bit (unat s) 1)"
    using assms(2) sz by (simp add: shl_u32_def)
  have high: "BUF_BUDDY_HIGH s z = Some (push_bit (unat s) 1)"
    unfolding BUF_BUDDY_HIGH_def low using shl by simp
  have "(2 :: nat) ^ unat s < 2 ^ 32"
    using assms(2) by (intro power_strict_increasing) simp_all
  moreover have "push_bit (unat s) (1 :: uint32_t) = of_nat (2 ^ unat s)"
    by (simp add: push_bit_eq_mult)
  ultimately have "unat (push_bit (unat s) (1 :: uint32_t)) = 2 ^ unat s"
    by (simp only: unat_of_nat_u32)
  with sz low shl high show ?thesis
    by (simp add: BUF_BUDDY_LOW_SHIFT_def)
qed


theorem buddy_high_witness:
  "(9::nat) \<le> unat (14 :: 32 word) \<and> unat (14 :: 32 word) < 32
   \<and> BUF_BUDDY_SIZES (14 :: 32 word) 9 = 5 \<and> BUF_BUDDY_HIGH (14 :: 32 word) 9 = Some 16384"
proof -
  have h: "(9::nat) \<le> unat (14 :: 32 word)" "unat (14 :: 32 word) < 32" by simp_all
  from buddy_high [OF h] have "BUF_BUDDY_HIGH (14 :: 32 word) 9 \<noteq> None" by auto
  moreover have "BUF_BUDDY_SIZES (14 :: 32 word) 9 = 5"
    by (simp add: BUF_BUDDY_SIZES_def BUF_BUDDY_LOW_SHIFT_def)
  moreover have "BUF_BUDDY_HIGH (14 :: 32 word) 9 = Some 16384"
    by (simp add: BUF_BUDDY_HIGH_def BUF_BUDDY_LOW_def BUF_BUDDY_SIZES_def BUF_BUDDY_LOW_SHIFT_def shl_u32_def)
  ultimately show ?thesis using h by simp
qed

end
